theory Spec2Isabelle
  imports Main
begin

section \<open>Go integers\<close>

text \<open>
  Go's \<open>int\<close> is a 64-bit two's complement integer on the platforms the program
  targets. It is modelled as an \<open>int\<close> with the wrap-around of every addition,
  subtraction and negation written out.
\<close>

definition max_int :: int where
  "max_int = 9223372036854775807"

definition min_int :: int where
  "min_int = - 9223372036854775808"

definition wrap64 :: "int \<Rightarrow> int" where
  "wrap64 x = (x + 9223372036854775808) mod 18446744073709551616 - 9223372036854775808"

definition add64 :: "int \<Rightarrow> int \<Rightarrow> int" where
  "add64 a b = wrap64 (a + b)"

definition sub64 :: "int \<Rightarrow> int \<Rightarrow> int" where
  "sub64 a b = wrap64 (a - b)"

definition neg64 :: "int \<Rightarrow> int" where
  "neg64 a = wrap64 (- a)"

section \<open>Data model\<close>

text \<open>
  \<open>gomatrix.Event\<close>: the identifier and the type tag are the two fields the room reads;
  everything else the event carries is the payload \<open>Content\<close>.
\<close>

record 'p Event =
  ID :: string
  Type :: string
  Content :: 'p

text \<open>The message part and the state part of \<open>gomatrix.RespInitialSync\<close>.\<close>

record 'p RespMessages =
  Start :: string
  Chunk :: "'p Event list"
  End :: string

record 'p RespInitialSync =
  Messages :: "'p RespMessages"
  State :: "'p Event list"

datatype error = Error string

text \<open>A run-time panic of the Go program: a slice expression with bounds out of range.\<close>

datatype panic = SliceBoundsOutOfRange

text \<open>
  The struct \<open>Room\<close>. The field \<open>ID\<close> of the room is \<open>roomID\<close> here (the event has
  the field \<open>ID\<close> already). The room state \<open>'s\<close> is the type \<open>RoomState\<close>, which the room
  only passes to \<open>UpdateOnEvent\<close>. The pointer \<open>client\<close> is the world below.
\<close>

record ('p, 's) Room =
  roomID :: string
  backPaginationToken :: string
  forwardPaginationToken :: string
  eventList :: "'p Event list"
  latestRoomState :: 's
  hasInitialSynced :: bool

text \<open>
  The client a room points to: here the room it keeps up to date, and the requests for
  older messages it has sent so far (pagination token and number of events asked for),
  the oldest request first.
\<close>

record ('p, 's) World =
  room :: "('p, 's) Room"
  requests :: "(string \<times> int) list"

text \<open>
  The homeserver's answer to a request for older messages, from a pagination token and a
  limit: an error, or the events and the next token.
\<close>

type_synonym 'p fetch = "string \<Rightarrow> int \<Rightarrow> error + ('p Event list \<times> string)"

section \<open>Helpers of package utils\<close>

text \<open>
  Modelled from the spec: the package \<open>utils\<close> (\<open>utils.Min\<close>, \<open>utils.Max\<close>,
  \<open>utils.Bound\<close>) is not among the sources. The spec writes them as \<open>min\<close>, \<open>max\<close> and
  \<open>clamp(value, low, high)\<close>.
\<close>

definition Min_int :: "int \<Rightarrow> int \<Rightarrow> int" where
  "Min_int a b = (if a < b then a else b)"

definition Max_int :: "int \<Rightarrow> int \<Rightarrow> int" where
  "Max_int a b = (if a > b then a else b)"

definition Bound :: "int \<Rightarrow> int \<Rightarrow> int \<Rightarrow> int" where
  "Bound low val high = (if val < low then low else if val > high then high else val)"

section \<open>Slices\<close>

text \<open>
  The slice expression \<open>s[lo:hi]\<close>. Go panics unless \<open>0 \<le> lo \<le> hi \<le> cap(s)\<close>; the
  upper bound here is the length, which the capacity is never below, and no caller below
  passes a \<open>hi\<close> over the length.
\<close>

definition slice :: "'a list \<Rightarrow> int \<Rightarrow> int \<Rightarrow> panic + 'a list" where
  "slice s lo hi =
     (if 0 \<le> lo \<and> lo \<le> hi \<and> hi \<le> int (length s)
      then Inr (take (nat (hi - lo)) (drop (nat lo) s))
      else Inl SliceBoundsOutOfRange)"

section \<open>Growing the timeline\<close>

fun concatBackpagination_loop :: "'p Event list \<Rightarrow> 'p Event list \<Rightarrow> 'p Event list" where
  "concatBackpagination_loop [] evs = evs"
| "concatBackpagination_loop (event # oldEvents) evs =
     (if Type event = ''m.room.redaction''
      then concatBackpagination_loop oldEvents evs
      else concatBackpagination_loop oldEvents (evs @ [event]))"

definition concatBackpagination ::
  "'p Event list \<Rightarrow> string \<Rightarrow> ('p, 's) Room \<Rightarrow> ('p, 's) Room" where
  "concatBackpagination oldEvents newToken r =
     r\<lparr>eventList := concatBackpagination_loop oldEvents (eventList r),
       backPaginationToken := newToken\<rparr>"

text \<open>
  \<open>UpdateOnEvent\<close> of \<open>RoomState\<close> is a parameter: it takes the event, the flag for the
  initial application, and the state it updates.
\<close>

fun concatForwardPagination_loop ::
  "('p Event \<Rightarrow> bool \<Rightarrow> 's \<Rightarrow> 's) \<Rightarrow> 'p Event list \<Rightarrow> ('p, 's) Room \<Rightarrow> ('p, 's) Room" where
  "concatForwardPagination_loop UpdateOnEvent [] r = r"
| "concatForwardPagination_loop UpdateOnEvent (event # newEvents) r =
     (if Type event = ''m.room.redaction''
      then concatForwardPagination_loop UpdateOnEvent newEvents r
      else concatForwardPagination_loop UpdateOnEvent newEvents
             (r\<lparr>latestRoomState := UpdateOnEvent event False (latestRoomState r),
                eventList := [event] @ eventList r\<rparr>))"

definition concatForwardPagination ::
  "('p Event \<Rightarrow> bool \<Rightarrow> 's \<Rightarrow> 's) \<Rightarrow> 'p Event list \<Rightarrow> string \<Rightarrow> ('p, 's) Room \<Rightarrow> ('p, 's) Room" where
  "concatForwardPagination UpdateOnEvent newEvents newToken r =
     (concatForwardPagination_loop UpdateOnEvent newEvents r)\<lparr>forwardPaginationToken := newToken\<rparr>"

definition GetTokens :: "('p, 's) Room \<Rightarrow> string \<times> string" where
  "GetTokens r = (backPaginationToken r, forwardPaginationToken r)"

section \<open>Creating a room\<close>

definition RoomInitialSyncLimit :: int where
  "RoomInitialSyncLimit = 256"

fun NewRoom_filter :: "'p Event list \<Rightarrow> 'p Event list \<Rightarrow> 'p Event list" where
  "NewRoom_filter [] filteredEventList = filteredEventList"
| "NewRoom_filter (event # chunk) filteredEventList =
     (if Type event \<noteq> ''m.room.redaction''
      then NewRoom_filter chunk filteredEventList
      else NewRoom_filter chunk ([event] @ filteredEventList))"

fun NewRoom_state ::
  "('p Event \<Rightarrow> bool \<Rightarrow> 's \<Rightarrow> 's) \<Rightarrow> 'p Event list \<Rightarrow> ('p, 's) Room \<Rightarrow> ('p, 's) Room" where
  "NewRoom_state UpdateOnEvent [] newRoom = newRoom"
| "NewRoom_state UpdateOnEvent (event # state) newRoom =
     NewRoom_state UpdateOnEvent state
       (newRoom\<lparr>latestRoomState := UpdateOnEvent event True (latestRoomState newRoom)\<rparr>)"

text \<open>
  \<open>NewRoom\<close>: \<open>RoomInitialSync\<close> is the client's request for the initial sync of a room,
  \<open>NewRoomState\<close> the fresh room state.
\<close>

definition NewRoom ::
  "(string \<Rightarrow> int \<Rightarrow> error + 'p RespInitialSync) \<Rightarrow> 's \<Rightarrow> ('p Event \<Rightarrow> bool \<Rightarrow> 's \<Rightarrow> 's) \<Rightarrow>
   string \<Rightarrow> error + ('p, 's) Room" where
  "NewRoom RoomInitialSync NewRoomState UpdateOnEvent rid =
     (case RoomInitialSync rid RoomInitialSyncLimit of
        Inl err \<Rightarrow> Inl err
      | Inr resp \<Rightarrow>
          (let filteredEventList = NewRoom_filter (Chunk (Messages resp)) [];
               newRoom = \<lparr>roomID = rid,
                          backPaginationToken = Start (Messages resp),
                          forwardPaginationToken = End (Messages resp),
                          eventList = filteredEventList,
                          latestRoomState = NewRoomState,
                          hasInitialSynced = False\<rparr>
           in Inr (NewRoom_state UpdateOnEvent (State resp) newRoom)))"

section \<open>Fetching older events\<close>

text \<open>
  Modelled from the spec: \<open>backpaginateRoom\<close> is a method of the client, which is not
  among the sources. The spec's \<open>ExtendOlder(count)\<close>: it calls the fetch collaborator
  with the current older-edge cursor and the requested count; on success the fetched
  events go through \<open>concatBackpagination\<close> (redactions dropped, the others appended in
  the order received, the cursor replaced) and the result is the number of events
  actually appended; on failure the timeline is unchanged, nothing was appended and the
  error is returned. Every call is recorded in \<open>requests\<close>.
\<close>

definition backpaginateRoom ::
  "'p fetch \<Rightarrow> int \<Rightarrow> ('p, 's) World \<Rightarrow> (int \<times> error option) \<times> ('p, 's) World" where
  "backpaginateRoom fetch amount w =
     (let r = room w;
          w1 = w\<lparr>requests := requests w @ [(backPaginationToken r, amount)]\<rparr>
      in case fetch (backPaginationToken r) amount of
           Inl err \<Rightarrow> ((0, Some err), w1)
         | Inr (events, newToken) \<Rightarrow>
             (let r' = concatBackpagination events newToken r
              in ((int (length (eventList r')) - int (length (eventList r)), None),
                  w1\<lparr>room := r'\<rparr>)))"

section \<open>Resolving an anchor\<close>

text \<open>The loop of \<open>findEventIndex\<close> over the event list, \<open>index\<close> counting from 0.\<close>

fun findEventIndex_loop :: "string \<Rightarrow> 'p Event list \<Rightarrow> int \<Rightarrow> int option" where
  "findEventIndex_loop anchor [] index = None"
| "findEventIndex_loop anchor (event # evs) index =
     (if ID event = anchor then Some index else findEventIndex_loop anchor evs (index + 1))"

function findEventIndex ::
  "'p fetch \<Rightarrow> string \<Rightarrow> bool \<Rightarrow> ('p, 's) World \<Rightarrow> (int \<times> bool) \<times> ('p, 's) World" where
  "findEventIndex fetch anchor backpaginate w =
     (case findEventIndex_loop anchor (eventList (room w)) 0 of
        Some index \<Rightarrow> ((index, True), w)
      | None \<Rightarrow>
          (if backpaginate
           then (case backpaginateRoom fetch 100 w of
                   ((numNew, _), w') \<Rightarrow>
                     (if numNew > 0 then findEventIndex fetch anchor False w'
                      else ((0, False), w')))
           else ((0, False), w)))"
  by pat_completeness auto
termination
  by (relation "measure (\<lambda>(fetch, anchor, backpaginate, w). if backpaginate then 1 else 0)") auto

declare findEventIndex.simps [simp del]

section \<open>Pages\<close>

definition overcompensateBackpaginationBy :: int where
  "overcompensateBackpaginationBy = 32"

definition getBackwardEventRange ::
  "'p fetch \<Rightarrow> int \<Rightarrow> int \<Rightarrow> int \<Rightarrow> ('p, 's) World \<Rightarrow> (panic + 'p Event list) \<times> ('p, 's) World" where
  "getBackwardEventRange fetch anchorIndex offset number w =
     (let length0 = int (length (eventList (room w)));
          delta = add64 (add64 (add64 anchorIndex offset) number) overcompensateBackpaginationBy;
          (length1, w') =
             (if delta \<ge> length0
              then (case backpaginateRoom fetch (sub64 delta length0) w of
                      ((numNew, None), w1) \<Rightarrow> (add64 length0 numNew, w1)
                    | ((numNew, Some err), w1) \<Rightarrow> (length0, w1))
              else (length0, w));
          startIndex = Min_int (add64 anchorIndex offset) length1
      in (slice (eventList (room w')) startIndex (Min_int (add64 startIndex number) length1), w'))"

definition getForwardEventRange ::
  "int \<Rightarrow> int \<Rightarrow> int \<Rightarrow> ('p, 's) Room \<Rightarrow> panic + 'p Event list" where
  "getForwardEventRange index offset number r =
     (let length0 = int (length (eventList r));
          topIndex = Bound 0 (sub64 (add64 index number) offset) length0
      in slice (eventList r) (Max_int (sub64 topIndex number) 0) topIndex)"

definition GetState :: "('p, 's) Room \<Rightarrow> 's" where
  "GetState r = latestRoomState r"

text \<open>
  \<open>GetEventPage\<close> returns the events and the error, or panics. The first part resolves
  the anchor: \<open>Inl\<close> is the early return when the anchor is not found.
\<close>

definition GetEventPage_anchor ::
  "'p fetch \<Rightarrow> string \<Rightarrow> ('p, 's) World \<Rightarrow> ('p, 's) World + (int \<times> ('p, 's) World)" where
  "GetEventPage_anchor fetch anchor w =
     (if anchor \<noteq> []
      then (case findEventIndex fetch anchor False w of
              ((index, found), w') \<Rightarrow> if found then Inr (index, w') else Inl w')
      else Inr (0, w))"

definition GetEventPage ::
  "'p fetch \<Rightarrow> string \<Rightarrow> int \<Rightarrow> int \<Rightarrow> ('p, 's) World \<Rightarrow>
   (panic + ('p Event list \<times> error option)) \<times> ('p, 's) World" where
  "GetEventPage fetch anchor offset pageSize w =
     (case GetEventPage_anchor fetch anchor w of
        Inl w' \<Rightarrow> (Inr ([], Some (Error ''Could not find event'')), w')
      | Inr (anchorIndex, w') \<Rightarrow>
          (if offset \<ge> 0
           then (case getBackwardEventRange fetch anchorIndex offset pageSize w' of
                   (Inl p, w'') \<Rightarrow> (Inl p, w'')
                 | (Inr events, w'') \<Rightarrow> (Inr (events, None), w''))
           else (case getForwardEventRange anchorIndex (neg64 offset) pageSize (room w') of
                   Inl p \<Rightarrow> (Inl p, w')
                 | Inr events \<Rightarrow> (Inr (events, None), w'))))"

section \<open>Concrete timelines\<close>

text \<open>
  Inputs for evaluating the functions: a room of \<open>n\<close> message events whose identifiers are
  all different, with the older-edge cursor \<open>T1\<close>, in a world with no request sent yet;
  a homeserver that fails; and one that answers every request with three message events
  and the cursor \<open>T2\<close>.
\<close>

fun sample_events :: "nat \<Rightarrow> unit Event list" where
  "sample_events 0 = []"
| "sample_events (Suc n) =
     \<lparr>ID = replicate (Suc n) CHR ''e'', Type = ''m.room.message'', Content = ()\<rparr> # sample_events n"

definition sample_room :: "nat \<Rightarrow> (unit, unit) Room" where
  "sample_room n =
     \<lparr>roomID = ''!room:hs'', backPaginationToken = ''T1'', forwardPaginationToken = ''T0'',
      eventList = sample_events n, latestRoomState = (), hasInitialSynced = False\<rparr>"

definition sample_world :: "nat \<Rightarrow> (unit, unit) World" where
  "sample_world n = \<lparr>room = sample_room n, requests = []\<rparr>"

definition fetch_fails :: "unit fetch" where
  "fetch_fails token limit = Inl (Error ''timeout'')"

definition fetch_three :: "unit fetch" where
  "fetch_three token limit =
     Inr ([\<lparr>ID = ''$o1'', Type = ''m.room.message'', Content = ()\<rparr>,
           \<lparr>ID = ''$o2'', Type = ''m.room.message'', Content = ()\<rparr>,
           \<lparr>ID = ''$o3'', Type = ''m.room.message'', Content = ()\<rparr>], ''T2'')"

section \<open>Facts about Go integers\<close>

lemma wrap64_id: "min_int \<le> x \<Longrightarrow> x \<le> max_int \<Longrightarrow> wrap64 x = x"
  by (simp add: wrap64_def min_int_def max_int_def)

lemma mod_shift_add: "(((x + A) mod M - A + y) + A) mod (M::int) = ((x + y) + A) mod M"
proof -
  have "((x + A) mod M - A + y) + A = (x + A) mod M + y" by simp
  then have "(((x + A) mod M - A + y) + A) mod M = ((x + A) + y) mod M"
    by (simp only: mod_add_left_eq)
  also have "(x + A) + y = (x + y) + A" by simp
  finally show ?thesis .
qed

lemma mod_shift_diff: "((x - ((y + A) mod M - A)) + A) mod (M::int) = ((x - y) + A) mod M"
proof -
  have "(x - ((y + A) mod M - A)) + A = (x + A + A) - (y + A) mod M" by simp
  then have "((x - ((y + A) mod M - A)) + A) mod M = ((x + A + A) - (y + A)) mod M"
    by (simp only: mod_diff_right_eq)
  also have "(x + A + A) - (y + A) = (x - y) + A" by simp
  finally show ?thesis .
qed

lemma wrap64_add_left: "wrap64 (wrap64 x + y) = wrap64 (x + y)"
  unfolding wrap64_def by (simp only: mod_shift_add)

lemma wrap64_diff_left: "wrap64 (wrap64 x - y) = wrap64 (x - y)"
  using wrap64_add_left [of x "- y"] by simp

lemma wrap64_diff_right: "wrap64 (x - wrap64 y) = wrap64 (x - y)"
  unfolding wrap64_def by (simp only: mod_shift_diff)

lemma needed_depth:
  assumes "0 \<le> anchorIndex" and "0 \<le> offset" and "0 \<le> number"
    and "anchorIndex + offset + number + 32 \<le> max_int"
  shows "add64 anchorIndex offset = anchorIndex + offset"
    and "add64 (anchorIndex + offset) number = anchorIndex + offset + number"
    and "add64 (anchorIndex + offset + number) overcompensateBackpaginationBy
           = anchorIndex + offset + number + 32"
    and "add64 (add64 (add64 anchorIndex offset) number) overcompensateBackpaginationBy
           = anchorIndex + offset + number + 32"
proof -
  have mi: "min_int < 0" by (simp add: min_int_def)
  show ao: "add64 anchorIndex offset = anchorIndex + offset"
    unfolding add64_def using assms mi by (intro wrap64_id) linarith+
  show aon: "add64 (anchorIndex + offset) number = anchorIndex + offset + number"
    unfolding add64_def using assms mi by (intro wrap64_id) linarith+
  show d: "add64 (anchorIndex + offset + number) overcompensateBackpaginationBy
          = anchorIndex + offset + number + 32"
    unfolding add64_def overcompensateBackpaginationBy_def
    using assms mi by (intro wrap64_id) linarith+
  show "add64 (add64 (add64 anchorIndex offset) number) overcompensateBackpaginationBy
           = anchorIndex + offset + number + 32"
    by (simp add: ao aon d)
qed

lemma LetI: "(\<And>x. x = t \<Longrightarrow> B x) \<Longrightarrow> Let t B"
  by simp

section \<open>Facts about the loops\<close>

lemma NewRoom_filter_eq:
  "NewRoom_filter chunk acc = rev (filter (\<lambda>e. Type e = ''m.room.redaction'') chunk) @ acc"
  by (induction chunk arbitrary: acc) simp_all

lemma NewRoom_state_eventList [simp]:
  "eventList (NewRoom_state upd state r) = eventList r"
  by (induction state arbitrary: r) simp_all

lemma concatBackpagination_loop_eq:
  "concatBackpagination_loop oldEvents evs = evs @ filter (\<lambda>e. Type e \<noteq> ''m.room.redaction'') oldEvents"
  by (induction oldEvents arbitrary: evs) simp_all

lemma concatForwardPagination_loop_eq:
  "concatForwardPagination_loop UpdateOnEvent newEvents r =
     r\<lparr>latestRoomState :=
          fold (\<lambda>e. UpdateOnEvent e False)
            (filter (\<lambda>e. Type e \<noteq> ''m.room.redaction'') newEvents) (latestRoomState r),
       eventList := rev (filter (\<lambda>e. Type e \<noteq> ''m.room.redaction'') newEvents) @ eventList r\<rparr>"
  by (induction newEvents arbitrary: r) simp_all

lemma findEventIndex_loop_None:
  "findEventIndex_loop anchor evs k = None \<longleftrightarrow> anchor \<notin> ID ` set evs"
  by (induction evs arbitrary: k) auto

lemma findEventIndex_loop_Some:
  "findEventIndex_loop anchor evs k = Some i \<Longrightarrow>
     k \<le> i \<and> i < k + int (length evs) \<and> ID (evs ! nat (i - k)) = anchor"
proof (induction evs arbitrary: k)
  case Nil
  then show ?case by simp
next
  case (Cons e evs)
  show ?case
  proof (cases "ID e = anchor")
    case True
    with Cons.prems show ?thesis by simp
  next
    case False
    with Cons.prems have "findEventIndex_loop anchor evs (k + 1) = Some i" by simp
    from Cons.IH [OF this]
    have ih: "k + 1 \<le> i" "i < k + 1 + int (length evs)" "ID (evs ! nat (i - (k + 1))) = anchor"
      by simp_all
    from ih(1) have "nat (i - k) = Suc (nat (i - (k + 1)))" by linarith
    with ih show ?thesis by (simp del: nat_diff_distrib)
  qed
qed

section \<open>Facts about the concrete timelines\<close>

lemma length_sample_events [simp]: "length (sample_events n) = n"
  by (induction n) simp_all

lemma sample_world_simps:
  "eventList (room (sample_world n)) = sample_events n"
  "backPaginationToken (room (sample_world n)) = ''T1''"
  "requests (sample_world n) = []"
  "room (sample_world n) = sample_room n"
  "eventList (sample_room n) = sample_events n"
  "backPaginationToken (sample_room n) = ''T1''"
  by (simp_all add: sample_world_def sample_room_def)

lemma sample_events_3:
  "sample_events 3 =
     [\<lparr>ID = ''eee'', Type = ''m.room.message'', Content = ()\<rparr>,
      \<lparr>ID = ''ee'', Type = ''m.room.message'', Content = ()\<rparr>,
      \<lparr>ID = ''e'', Type = ''m.room.message'', Content = ()\<rparr>]"
  by (simp add: numeral_3_eq_3)

lemma sample_events_2:
  "sample_events 2 =
     [\<lparr>ID = ''ee'', Type = ''m.room.message'', Content = ()\<rparr>,
      \<lparr>ID = ''e'', Type = ''m.room.message'', Content = ()\<rparr>]"
  by (simp add: numeral_2_eq_2)

section \<open>Facts about fetching older events\<close>

lemma backpaginateRoom_requests:
  "requests (snd (backpaginateRoom fetch n w)) = requests w @ [(backPaginationToken (room w), n)]"
  by (simp add: backpaginateRoom_def Let_def split: sum.split prod.split)

lemma backpaginateRoom_Inl:
  assumes "fetch (backPaginationToken (room w)) n = Inl e"
  shows "backpaginateRoom fetch n w =
           ((0, Some e), w\<lparr>requests := requests w @ [(backPaginationToken (room w), n)]\<rparr>)"
  using assms by (simp add: backpaginateRoom_def Let_def)

lemma backpaginateRoom_Inr:
  assumes "fetch (backPaginationToken (room w)) n = Inr (evs, tok)"
  shows "backpaginateRoom fetch n w =
           ((int (length (filter (\<lambda>e. Type e \<noteq> ''m.room.redaction'') evs)), None),
            w\<lparr>requests := requests w @ [(backPaginationToken (room w), n)],
              room := (room w)\<lparr>eventList := eventList (room w) @ filter (\<lambda>e. Type e \<noteq> ''m.room.redaction'') evs,
                               backPaginationToken := tok\<rparr>\<rparr>)"
  using assms
  by (simp add: backpaginateRoom_def Let_def concatBackpagination_def concatBackpagination_loop_eq)

lemma backpaginateRoom_result_conj:
  assumes "backpaginateRoom fetch n w = ((numNew, err), w1)"
  shows "int (length (eventList (room w1))) = int (length (eventList (room w))) + numNew
       \<and> 0 \<le> numNew
       \<and> (err \<noteq> None \<longrightarrow> room w1 = room w)
       \<and> (\<exists>added. eventList (room w1) = eventList (room w) @ added)"
proof (cases "fetch (backPaginationToken (room w)) n")
  case (Inl e)
  from backpaginateRoom_Inl [of fetch w n e, OF Inl] assms show ?thesis by auto
next
  case (Inr p)
  obtain evs tok where "p = (evs, tok)" by (cases p)
  with Inr backpaginateRoom_Inr [of fetch w n evs tok] assms show ?thesis by auto
qed

lemma backpaginateRoom_result:
  assumes "backpaginateRoom fetch n w = ((numNew, err), w1)"
  shows "int (length (eventList (room w1))) = int (length (eventList (room w))) + numNew"
    and "0 \<le> numNew"
    and "err \<noteq> None \<Longrightarrow> room w1 = room w"
    and "\<exists>added. eventList (room w1) = eventList (room w) @ added"
  using backpaginateRoom_result_conj [OF assms] by blast+

lemma backpaginateRoom_tracked_length:
  "int (length (eventList (room (snd (backpaginateRoom fetch n w))))) =
     (if snd (fst (backpaginateRoom fetch n w)) = None
      then int (length (eventList (room w))) + fst (fst (backpaginateRoom fetch n w))
      else int (length (eventList (room w))))"
proof -
  obtain numNew err w1 where bp: "backpaginateRoom fetch n w = ((numNew, err), w1)"
    by (metis surj_pair)
  note res = backpaginateRoom_result [OF bp]
  show ?thesis
  proof (cases err)
    case None
    with res(1) bp show ?thesis by simp
  next
    case (Some e)
    with res(3) have "room w1 = room w" by simp
    with Some bp show ?thesis by simp
  qed
qed

lemma backpaginateRoom_fetch_fails:
  "backpaginateRoom fetch_fails n (sample_world k) =
     ((0, Some (Error ''timeout'')), (sample_world k)\<lparr>requests := [(''T1'', n)]\<rparr>)"
  using backpaginateRoom_Inl [of fetch_fails "sample_world k" n "Error ''timeout''"]
  by (simp add: fetch_fails_def sample_world_simps)

lemma backpaginateRoom_fetch_three:
  "backpaginateRoom fetch_three n (sample_world k) =
     ((3, None),
      \<lparr>room = (sample_room k)\<lparr>eventList := sample_events k @
           [\<lparr>ID = ''$o1'', Type = ''m.room.message'', Content = ()\<rparr>,
            \<lparr>ID = ''$o2'', Type = ''m.room.message'', Content = ()\<rparr>,
            \<lparr>ID = ''$o3'', Type = ''m.room.message'', Content = ()\<rparr>],
           backPaginationToken := ''T2''\<rparr>,
       requests = [(''T1'', n)]\<rparr>)"
  by (simp add: backpaginateRoom_def concatBackpagination_def Let_def
        fetch_three_def sample_world_def sample_room_def)

section \<open>Facts about resolving an anchor\<close>

lemma findEventIndex_False:
  "findEventIndex fetch anchor False w =
     (case findEventIndex_loop anchor (eventList (room w)) 0 of
        Some index \<Rightarrow> ((index, True), w) | None \<Rightarrow> ((0, False), w))"
  by (simp add: findEventIndex.simps)

lemma findEventIndex_True_absent:
  assumes "anchor \<notin> ID ` set (eventList (room w))"
  shows "findEventIndex fetch anchor True w =
           ((case findEventIndex_loop anchor (eventList (room (snd (backpaginateRoom fetch 100 w)))) 0 of
               Some index \<Rightarrow> (index, True) | None \<Rightarrow> (0, False)),
            snd (backpaginateRoom fetch 100 w))"
proof -
  have none: "findEventIndex_loop anchor (eventList (room w)) 0 = None"
    using assms by (simp add: findEventIndex_loop_None)
  obtain numNew err w1 where bp: "backpaginateRoom fetch 100 w = ((numNew, err), w1)"
    by (metis surj_pair)
  note res = backpaginateRoom_result [OF bp]
  show ?thesis
  proof (cases "numNew > 0")
    case True
    then show ?thesis
      by (simp add: findEventIndex.simps [of fetch anchor True] none bp findEventIndex_False
            split: option.split)
  next
    case False
    with res(2) have "numNew = 0" by simp
    with res(1) have len: "length (eventList (room w1)) = length (eventList (room w))" by simp
    from res(4) obtain added where "eventList (room w1) = eventList (room w) @ added" ..
    with len have "eventList (room w1) = eventList (room w)" by simp
    with none have "findEventIndex_loop anchor (eventList (room w1)) 0 = None" by simp
    with False show ?thesis
      by (simp add: findEventIndex.simps [of fetch anchor True] none bp)
  qed
qed

lemma GetEventPage_anchor_eq:
  "GetEventPage_anchor fetch anchor w =
     (if anchor = [] then Inr (0, w)
      else case findEventIndex_loop anchor (eventList (room w)) 0 of
             Some index \<Rightarrow> Inr (index, w) | None \<Rightarrow> Inl w)"
  by (simp add: GetEventPage_anchor_def findEventIndex_False split: option.split)

lemma GetEventPage_anchor_empty: "GetEventPage_anchor fetch [] w = Inr (0, w)"
  by (simp add: GetEventPage_anchor_def)

lemma GetEventPage_anchor_resolved:
  assumes "anchor = [] \<and> anchorIndex = 0
         \<or> anchor \<noteq> [] \<and> findEventIndex_loop anchor (eventList (room w)) 0 = Some anchorIndex"
  shows "GetEventPage_anchor fetch anchor w = Inr (anchorIndex, w)" and "0 \<le> anchorIndex"
  using assms findEventIndex_loop_Some [of anchor "eventList (room w)" 0 anchorIndex]
  by (auto simp: GetEventPage_anchor_eq)

section \<open>Facts about the backward range\<close>

lemma slice_in_range:
  assumes "0 \<le> lo" "lo \<le> hi" "hi \<le> int (length s)"
  shows "slice s lo hi = Inr (take (nat (hi - lo)) (drop (nat lo) s))"
  using assms by (simp add: slice_def)

lemma slice_returns_iff:
  "(\<exists>page. slice s lo hi = Inr page) \<longleftrightarrow> 0 \<le> lo \<and> lo \<le> hi \<and> hi \<le> int (length s)"
  by (simp add: slice_def)

lemma getBackwardEventRange_snd:
  "snd (getBackwardEventRange fetch anchorIndex offset number w) =
     (let length0 = int (length (eventList (room w)));
          delta = add64 (add64 (add64 anchorIndex offset) number) overcompensateBackpaginationBy
      in if delta \<ge> length0 then snd (backpaginateRoom fetch (sub64 delta length0) w) else w)"
  by (simp add: getBackwardEventRange_def Let_def split_beta split: prod.split option.split)

lemma getBackwardEventRange_world:
  assumes a: "0 \<le> anchorIndex" and off: "0 \<le> offset" and n: "0 \<le> number"
    and fit: "anchorIndex + offset + number + 32 \<le> max_int"
  shows "snd (getBackwardEventRange fetch anchorIndex offset number w) =
           (if int (length (eventList (room w))) \<le> anchorIndex + offset + number + 32
            then snd (backpaginateRoom fetch
                   (anchorIndex + offset + number + 32 - int (length (eventList (room w)))) w)
            else w)"
proof -
  have mi: "min_int < 0" by (simp add: min_int_def)
  have sub: "sub64 (anchorIndex + offset + number + 32) (int (length (eventList (room w))))
             = anchorIndex + offset + number + 32 - int (length (eventList (room w)))"
    if "int (length (eventList (room w))) \<le> anchorIndex + offset + number + 32"
    unfolding sub64_def using that fit mi by (intro wrap64_id) linarith+
  show ?thesis
    by (simp add: getBackwardEventRange_snd Let_def needed_depth(4) [OF a off n fit] sub)
qed

text \<open>
  Within the range of \<open>int\<close>, the page is the slice of the timeline as the call leaves it,
  with the bounds computed from that timeline's length.
\<close>

lemma getBackwardEventRange_in_range:
  assumes a: "0 \<le> anchorIndex" and off: "0 \<le> offset" and n: "0 \<le> number"
    and fit: "anchorIndex + offset + number + 32 \<le> max_int"
    and w': "w' = snd (getBackwardEventRange fetch anchorIndex offset number w)"
    and mem: "int (length (eventList (room w'))) \<le> max_int"
    and s: "startIndex = min (anchorIndex + offset) (int (length (eventList (room w'))))"
    and e: "endIndex = min (startIndex + number) (int (length (eventList (room w'))))"
  shows "getBackwardEventRange fetch anchorIndex offset number w =
           (Inr (take (nat (endIndex - startIndex)) (drop (nat startIndex) (eventList (room w')))), w')"
proof -
  define length0 where "length0 = int (length (eventList (room w)))"
  define delta where "delta = anchorIndex + offset + number + 32"
  have mi: "min_int < 0" "0 < max_int" by (simp_all add: min_int_def max_int_def)
  note ao = needed_depth(1) [OF a off n fit] and aon = needed_depth(2) [OF a off n fit]
  have d: "add64 (anchorIndex + offset + number) overcompensateBackpaginationBy = delta"
    by (simp add: needed_depth(3) [OF a off n fit] delta_def)
  have l0: "0 \<le> length0" by (simp add: length0_def)
  note world = getBackwardEventRange_world [OF a off n fit, of fetch w]
  show ?thesis
  proof (cases "delta \<ge> length0")
    case False
    then have lt: "anchorIndex + offset + number + 32 < length0" by (simp add: delta_def)
    have w'w: "w' = w" using w' world lt by (simp add: length0_def)
    have s': "startIndex = anchorIndex + offset"
      using s lt n w'w by (simp add: length0_def)
    have e': "endIndex = anchorIndex + offset + number"
      using e s' lt w'w by (simp add: length0_def)
    have sM: "Min_int (anchorIndex + offset) length0 = anchorIndex + offset"
      using lt n by (simp add: Min_int_def)
    have eM: "Min_int (anchorIndex + offset + number) length0 = anchorIndex + offset + number"
      using lt by (simp add: Min_int_def)
    have sl: "slice (eventList (room w)) (anchorIndex + offset) (anchorIndex + offset + number)
              = Inr (take (nat number) (drop (nat (anchorIndex + offset)) (eventList (room w))))"
      using slice_in_range [of "anchorIndex + offset" "anchorIndex + offset + number" "eventList (room w)"]
        a off n lt by (simp add: length0_def)
    show ?thesis
      using False
      by (simp add: getBackwardEventRange_def Let_def ao aon d sM eM sl w'w s' e'
            flip: length0_def)
  next
    case True
    have sub: "sub64 delta length0 = delta - length0"
      unfolding sub64_def using True l0 fit mi by (intro wrap64_id) (simp_all add: delta_def)
    obtain numNew err w1 where bp: "backpaginateRoom fetch (delta - length0) w = ((numNew, err), w1)"
      by (metis surj_pair)
    note res = backpaginateRoom_result [OF bp]
    have w'w1: "w' = w1" using w' world True bp by (simp add: delta_def length0_def)
    define length1 where "length1 = int (length (eventList (room w1)))"
    have l1: "length1 = length0 + numNew" using res(1) by (simp add: length1_def length0_def)
    have l1max: "length1 \<le> max_int" using mem w'w1 by (simp add: length1_def)
    have add: "add64 length0 numNew = length1"
      unfolding add64_def l1 [symmetric] using l1 l0 res(2) l1max mi
      by (intro wrap64_id) linarith+
    have tracked: "(case err of None \<Rightarrow> (add64 length0 numNew, w1)
                    | Some err \<Rightarrow> (length0, w1)) = (length1, w1)"
    proof (cases err)
      case None
      then show ?thesis by (simp add: add)
    next
      case (Some e)
      with res(3) have "room w1 = room w" by simp
      then have "length1 = length0" by (simp add: length1_def length0_def)
      with Some show ?thesis by simp
    qed
    have l1pos: "0 \<le> length1" by (simp add: length1_def)
    have s1: "startIndex = min (anchorIndex + offset) length1"
      and e1: "endIndex = min (startIndex + number) length1"
      using s e w'w1 by (simp_all add: length1_def)
    have sM: "Min_int (anchorIndex + offset) length1 = startIndex"
      by (simp add: Min_int_def s1)
    have sn: "add64 startIndex number = startIndex + number"
      unfolding add64_def using a off n fit mi l1pos
      by (intro wrap64_id) (simp_all add: s1 min_def)
    have eM: "Min_int (startIndex + number) length1 = endIndex"
      by (simp add: Min_int_def e1)
    have sl: "slice (eventList (room w1)) startIndex endIndex
              = Inr (take (nat (endIndex - startIndex)) (drop (nat startIndex) (eventList (room w1))))"
      using a off n l1pos
      by (intro slice_in_range) (simp_all add: s1 e1 length1_def min_def)
    show ?thesis
      using True
      by (simp add: getBackwardEventRange_def Let_def ao aon d sub bp tracked sM sn eM sl w'w1
            flip: length0_def length1_def)
  qed
qed

lemma getBackwardEventRange_fetch_fails:
  assumes a: "0 \<le> anchorIndex" and off: "0 \<le> offset" and n: "0 \<le> number"
    and fit: "anchorIndex + offset + number + 32 \<le> max_int"
    and needed: "int (length (eventList (room w))) \<le> anchorIndex + offset + number + 32"
    and fails: "fetch (backPaginationToken (room w))
                  (anchorIndex + offset + number + 32 - int (length (eventList (room w)))) = Inl err"
    and s: "startIndex = min (anchorIndex + offset) (int (length (eventList (room w))))"
    and e: "endIndex = min (startIndex + number) (int (length (eventList (room w))))"
  shows "getBackwardEventRange fetch anchorIndex offset number w =
           (Inr (take (nat (endIndex - startIndex)) (drop (nat startIndex) (eventList (room w)))),
            w\<lparr>requests := requests w @ [(backPaginationToken (room w),
                   anchorIndex + offset + number + 32 - int (length (eventList (room w))))]\<rparr>)"
proof -
  define w' where "w' = w\<lparr>requests := requests w @ [(backPaginationToken (room w),
                   anchorIndex + offset + number + 32 - int (length (eventList (room w))))]\<rparr>"
  have bp: "backpaginateRoom fetch
              (anchorIndex + offset + number + 32 - int (length (eventList (room w)))) w =
            ((0, Some err), w')"
    unfolding w'_def using backpaginateRoom_Inl [of fetch w _ err, OF fails] .
  have world: "w' = snd (getBackwardEventRange fetch anchorIndex offset number w)"
    using needed by (simp add: getBackwardEventRange_world [OF a off n fit] bp)
  have same: "eventList (room w') = eventList (room w)" by (simp add: w'_def)
  have mem: "int (length (eventList (room w'))) \<le> max_int"
    using needed fit by (simp add: same)
  show ?thesis
    using getBackwardEventRange_in_range [OF a off n fit world mem, of startIndex endIndex] s e
    by (simp add: same flip: w'_def)
qed

lemma backward_negative_number_panics:
  "slice s (Min_int 0 l) (Min_int (add64 (Min_int 0 l) (- 1)) l) = Inl SliceBoundsOutOfRange"
proof -
  have m: "add64 0 (- 1) = - 1" by (simp add: add64_def wrap64_def)
  consider "0 < l" | "l = 0" | "l < 0" by linarith
  then show ?thesis
  proof cases
    case 1
    then show ?thesis by (simp add: slice_def Min_int_def m)
  next
    case 2
    then show ?thesis by (simp add: slice_def Min_int_def m)
  next
    case 3
    then show ?thesis by (simp add: slice_def Min_int_def)
  qed
qed

lemma getBackwardEventRange_minus_one:
  "fst (getBackwardEventRange fetch 0 0 (- 1) w) = Inl SliceBoundsOutOfRange"
proof -
  have z: "add64 0 0 = 0" by (simp add: add64_def wrap64_def)
  show ?thesis
    by (simp add: getBackwardEventRange_def Let_def split_beta z backward_negative_number_panics)
qed

section \<open>Facts about the forward range\<close>

lemma forward_top_value:
  assumes "min_int \<le> index + number + offset" and "index + number + offset \<le> max_int"
  shows "sub64 (add64 index number) (neg64 offset) = index + number + offset"
proof -
  have "sub64 (add64 index number) (neg64 offset) = wrap64 (index + number - (- offset))"
    by (simp only: sub64_def add64_def neg64_def wrap64_diff_left wrap64_diff_right)
  also have "\<dots> = index + number + offset"
    using assms by (simp add: wrap64_id)
  finally show ?thesis .
qed

lemma Bound_range:
  assumes "0 \<le> l"
  shows "Bound 0 x l = max 0 (min x l)" and "0 \<le> Bound 0 x l" and "Bound 0 x l \<le> l"
  using assms by (simp_all add: Bound_def)

lemma getForwardEventRange_top:
  assumes n: "0 \<le> number" and nmax: "number \<le> max_int"
    and top: "0 \<le> topIndex" "topIndex \<le> int (length (eventList r))" "topIndex \<le> max_int"
    and v: "Bound 0 (sub64 (add64 index number) fwd) (int (length (eventList r))) = topIndex"
  shows "getForwardEventRange index fwd number r =
           Inr (take (nat (topIndex - max (topIndex - number) 0))
                  (drop (nat (max (topIndex - number) 0)) (eventList r)))"
proof -
  have mi: "min_int = - max_int - 1" by (simp add: min_int_def max_int_def)
  have sub: "sub64 topIndex number = topIndex - number"
    unfolding sub64_def using n nmax top mi by (intro wrap64_id) linarith+
  have mx: "Max_int (topIndex - number) 0 = max (topIndex - number) 0"
    by (simp add: Max_int_def)
  show ?thesis
    using n top
    by (simp add: getForwardEventRange_def Let_def v sub mx slice_in_range)
qed

lemma getForwardEventRange_in_range:
  assumes i: "0 \<le> index" and n: "0 \<le> number" and nmax: "number \<le> max_int"
    and o: "offset < 0" and omin: "min_int \<le> offset"
    and fit: "index + number - (- offset) \<le> max_int"
    and t: "topIndex = max 0 (min (index + number - (- offset)) (int (length (eventList r))))"
    and b: "bottomIndex = max (topIndex - number) 0"
  shows "getForwardEventRange index (neg64 offset) number r =
           Inr (take (nat (topIndex - bottomIndex)) (drop (nat bottomIndex) (eventList r)))"
proof -
  have lo: "min_int \<le> index + number + offset" using i n omin by linarith
  have hi: "index + number + offset \<le> max_int" using fit by simp
  have v: "Bound 0 (sub64 (add64 index number) (neg64 offset)) (int (length (eventList r))) = topIndex"
    by (simp add: forward_top_value [OF lo hi] Bound_range(1) t)
  have mx: "0 < max_int" by (simp add: max_int_def)
  have top: "0 \<le> topIndex" "topIndex \<le> int (length (eventList r))" "topIndex \<le> max_int"
    using hi mx by (simp_all add: t)
  show ?thesis
    using getForwardEventRange_top [OF n nmax top v] by (simp add: b)
qed

lemma getForwardEventRange_safe:
  assumes n: "0 \<le> number" and nmax: "number \<le> max_int"
    and len: "int (length (eventList r)) \<le> max_int"
  shows "\<exists>page. getForwardEventRange index fwd number r = Inr page"
proof -
  define topIndex where
    "topIndex = Bound 0 (sub64 (add64 index number) fwd) (int (length (eventList r)))"
  have top: "0 \<le> topIndex" "topIndex \<le> int (length (eventList r))"
    by (simp_all add: topIndex_def Bound_range)
  with len have "topIndex \<le> max_int" by simp
  from getForwardEventRange_top [OF n nmax top this topIndex_def [symmetric]]
  show ?thesis by blast
qed

lemma getForwardEventRange_negative_number:
  "getForwardEventRange 0 1 (- 1) r = Inl SliceBoundsOutOfRange"
  "getForwardEventRange 0 1 (- 3) r = Inl SliceBoundsOutOfRange"
  by (simp_all add: getForwardEventRange_def Let_def add64_def sub64_def wrap64_def Bound_def
        Max_int_def slice_def)

section \<open>Facts about pages\<close>

lemma GetEventPage_backward:
  assumes "GetEventPage_anchor fetch anchor w = Inr (anchorIndex, w)" and "0 \<le> offset"
  shows "GetEventPage fetch anchor offset pageSize w =
           (case getBackwardEventRange fetch anchorIndex offset pageSize w of
              (Inl p, w'') \<Rightarrow> (Inl p, w'')
            | (Inr events, w'') \<Rightarrow> (Inr (events, None), w''))"
  using assms by (simp add: GetEventPage_def)

lemma GetEventPage_forward:
  assumes "GetEventPage_anchor fetch anchor w = Inr (anchorIndex, w)" and "offset < 0"
  shows "GetEventPage fetch anchor offset pageSize w =
           (case getForwardEventRange anchorIndex (neg64 offset) pageSize (room w) of
              Inl p \<Rightarrow> (Inl p, w)
            | Inr events \<Rightarrow> (Inr (events, None), w))"
  using assms by (simp add: GetEventPage_def)

lemma GetEventPage_forward_frame:
  assumes "offset < 0"
  shows "snd (GetEventPage fetch anchor offset pageSize w) = w"
  using assms
  by (simp add: GetEventPage_def GetEventPage_anchor_eq split: option.split sum.split)

lemma GetEventPage_5_5_of_ten:
  assumes len: "length (eventList (room w)) = 10"
    and fetched: "fetch (backPaginationToken (room w)) 32 = Inr (evs, tok)"
    and three: "length (filter (\<lambda>e. Type e \<noteq> ''m.room.redaction'') evs) = 3"
  shows "GetEventPage fetch [] 5 5 w =
           (Inr (take 5 (drop 5 (eventList (room w))), None),
            w\<lparr>requests := requests w @ [(backPaginationToken (room w), 32)],
              room := (room w)\<lparr>eventList := eventList (room w)
                                   @ filter (\<lambda>e. Type e \<noteq> ''m.room.redaction'') evs,
                               backPaginationToken := tok\<rparr>\<rparr>)"
proof -
  define w' where "w' = w\<lparr>requests := requests w @ [(backPaginationToken (room w), 32)],
              room := (room w)\<lparr>eventList := eventList (room w)
                                   @ filter (\<lambda>e. Type e \<noteq> ''m.room.redaction'') evs,
                               backPaginationToken := tok\<rparr>\<rparr>"
  have fit: "(0::int) + 5 + 5 + 32 \<le> max_int" by (simp add: max_int_def)
  have bp: "backpaginateRoom fetch 32 w = ((3, None), w')"
    unfolding w'_def using backpaginateRoom_Inr [of fetch w 32 evs tok, OF fetched] three by simp
  have world: "w' = snd (getBackwardEventRange fetch 0 5 5 w)"
    using getBackwardEventRange_world [of 0 5 5 fetch w] fit len by (simp add: bp)
  have len': "int (length (eventList (room w'))) = 13"
    using len three by (simp add: w'_def)
  have "getBackwardEventRange fetch 0 5 5 w =
          (Inr (take (nat (10 - 5)) (drop (nat 5) (eventList (room w')))), w')"
    using fit by (intro getBackwardEventRange_in_range [OF _ _ _ _ world])
      (simp_all add: len' max_int_def)
  then have range: "getBackwardEventRange fetch 0 5 5 w = (Inr (take 5 (drop 5 (eventList (room w)))), w')"
    using len by (simp add: w'_def)
  show ?thesis
    using GetEventPage_backward [OF GetEventPage_anchor_empty, where offset = 5 and pageSize = 5
        and fetch = fetch and w = w]
    by (simp add: range flip: w'_def)
qed

section \<open>The claims\<close>

text \<open>
  C1. When the initial sync of a room succeeds, \<open>NewRoom\<close> returns a room whose event
  list holds exactly the events of type \<open>m.room.redaction\<close> of the delivered message
  chunk and no other event, in the reverse of the order of delivery: if any event is
  kept, index 0 holds the kept event that was delivered last.
\<close>

theorem C1_NewRoom_keeps_redactions_reversed:
  assumes "RoomInitialSync rid RoomInitialSyncLimit = Inr resp"
  shows "\<exists>r. NewRoom RoomInitialSync NewRoomState UpdateOnEvent rid = Inr r
           \<and> eventList r = rev (filter (\<lambda>e. Type e = ''m.room.redaction'') (Chunk (Messages resp)))
           \<and> set (eventList r) = {e \<in> set (Chunk (Messages resp)). Type e = ''m.room.redaction''}
           \<and> (filter (\<lambda>e. Type e = ''m.room.redaction'') (Chunk (Messages resp)) \<noteq> []
                \<longrightarrow> eventList r ! 0 = last (filter (\<lambda>e. Type e = ''m.room.redaction'') (Chunk (Messages resp))))"
  using assms
  by (simp add: NewRoom_def NewRoom_filter_eq Let_def hd_rev flip: hd_conv_nth)

theorem C1_NewRoom_keeps_redactions_reversed_witness:
  "(\<lambda>rid limit. Inr \<lparr>Messages = \<lparr>Start = ''t0'',
        Chunk = [\<lparr>ID = ''$a'', Type = ''m.room.message'', Content = ()\<rparr>,
                 \<lparr>ID = ''$b'', Type = ''m.room.redaction'', Content = ()\<rparr>,
                 \<lparr>ID = ''$c'', Type = ''m.room.redaction'', Content = ()\<rparr>],
        End = ''t1''\<rparr>, State = []\<rparr>) ''!room:hs'' RoomInitialSyncLimit
     = (Inr \<lparr>Messages = \<lparr>Start = ''t0'',
        Chunk = [\<lparr>ID = ''$a'', Type = ''m.room.message'', Content = ()\<rparr>,
                 \<lparr>ID = ''$b'', Type = ''m.room.redaction'', Content = ()\<rparr>,
                 \<lparr>ID = ''$c'', Type = ''m.room.redaction'', Content = ()\<rparr>],
        End = ''t1''\<rparr>, State = []\<rparr> :: error + unit RespInitialSync)
   \<and> (\<exists>r. NewRoom (\<lambda>rid limit. Inr \<lparr>Messages = \<lparr>Start = ''t0'',
        Chunk = [\<lparr>ID = ''$a'', Type = ''m.room.message'', Content = ()\<rparr>,
                 \<lparr>ID = ''$b'', Type = ''m.room.redaction'', Content = ()\<rparr>,
                 \<lparr>ID = ''$c'', Type = ''m.room.redaction'', Content = ()\<rparr>],
        End = ''t1''\<rparr>, State = []\<rparr>) (0::nat) (\<lambda>e initial n. Suc n) ''!room:hs'' = Inr r
      \<and> eventList r = [\<lparr>ID = ''$c'', Type = ''m.room.redaction'', Content = ()\<rparr>,
                       \<lparr>ID = ''$b'', Type = ''m.room.redaction'', Content = ()\<rparr>])"
  using C1_NewRoom_keeps_redactions_reversed
    [of "\<lambda>rid limit. Inr \<lparr>Messages = \<lparr>Start = ''t0'',
        Chunk = [\<lparr>ID = ''$a'', Type = ''m.room.message'', Content = ()\<rparr>,
                 \<lparr>ID = ''$b'', Type = ''m.room.redaction'', Content = ()\<rparr>,
                 \<lparr>ID = ''$c'', Type = ''m.room.redaction'', Content = ()\<rparr>],
        End = ''t1''\<rparr>, State = []\<rparr>" "''!room:hs''" _ "0::nat" "\<lambda>e initial n. Suc n"]
  by auto

text \<open>
  C2 (as amended). \<open>GetEventPage\<close> resolves its anchor with \<open>backpaginate = false\<close>: when the
  anchor is not empty and not in the cached timeline, it returns no events and the error
  at once, and the room and the list of requests are unchanged, so no backward extension
  is attempted. The resolver \<open>findEventIndex\<close> called with \<open>backpaginate = true\<close> on such an
  anchor sends exactly one request, for 100 older events, and its answer is that of one
  more scan, over the timeline as that extension left it.
\<close>

theorem C2_unknown_anchor_fails_without_extension:
  assumes "anchor \<noteq> []" and "anchor \<notin> ID ` set (eventList (room w))"
  shows "GetEventPage fetch anchor offset pageSize w
           = (Inr ([], Some (Error ''Could not find event'')), w)
       \<and> requests (snd (findEventIndex fetch anchor True w))
           = requests w @ [(backPaginationToken (room w), 100)]
       \<and> findEventIndex fetch anchor True w
           = ((case findEventIndex_loop anchor
                     (eventList (room (snd (backpaginateRoom fetch 100 w)))) 0 of
                 Some index \<Rightarrow> (index, True) | None \<Rightarrow> (0, False)),
              snd (backpaginateRoom fetch 100 w))"
proof -
  have none: "findEventIndex_loop anchor (eventList (room w)) 0 = None"
    using assms(2) by (simp add: findEventIndex_loop_None)
  have "GetEventPage fetch anchor offset pageSize w
           = (Inr ([], Some (Error ''Could not find event'')), w)"
    using assms(1) by (simp add: GetEventPage_def GetEventPage_anchor_eq none)
  moreover have "requests (snd (findEventIndex fetch anchor True w))
           = requests w @ [(backPaginationToken (room w), 100)]"
    by (simp add: findEventIndex_True_absent [OF assms(2)] backpaginateRoom_requests)
  ultimately show ?thesis
    using findEventIndex_True_absent [OF assms(2)] by simp
qed

theorem C2_unknown_anchor_fails_without_extension_witness:
  "''$o2'' \<noteq> [] \<and> ''$o2'' \<notin> ID ` set (eventList (room (sample_world 3)))
   \<and> GetEventPage fetch_three ''$o2'' 0 5 (sample_world 3)
        = (Inr ([], Some (Error ''Could not find event'')), sample_world 3)
   \<and> requests (snd (findEventIndex fetch_three ''$o2'' True (sample_world 3))) = [(''T1'', 100)]
   \<and> fst (findEventIndex fetch_three ''$o2'' True (sample_world 3)) = (4, True)"
  using C2_unknown_anchor_fails_without_extension
    [of "''$o2''" "sample_world 3" fetch_three 0 5]
  by (simp add: sample_world_simps sample_events_3 backpaginateRoom_fetch_three)

theorem C2_one_extension_of_100_counterexample:
  "fst (GetEventPage fetch_three ''$o2'' 0 5 (sample_world 3))
     = Inr ([], Some (Error ''Could not find event''))
   \<and> requests (snd (GetEventPage fetch_three ''$o2'' 0 5 (sample_world 3))) = []
   \<and> requests (snd (GetEventPage fetch_three ''$o2'' 0 5 (sample_world 3))) \<noteq> [(''T1'', 100)]"
  by (simp add: GetEventPage_def GetEventPage_anchor_eq sample_world_simps sample_events_3)

text \<open>
  C3 (as amended). With 10 cached events, \<open>GetEventPage("", 5, 5)\<close> has the anchor index 0,
  so the depth it computes is \<open>0 + 5 + 5 + 32 = 42\<close>, which is at least 10, and it sends one
  request for \<open>42 - 10 = 32\<close> older events. When that request brings 3 events that are not
  redactions, the timeline has 13 events afterwards and the page is the events at the
  indices 5 to 9 of the timeline as it was, with no error.
\<close>

theorem C3_page_5_5_of_ten_requests_32:
  assumes len: "length (eventList (room w)) = 10"
    and fetched: "fetch (backPaginationToken (room w)) 32 = Inr (evs, tok)"
    and three: "length (filter (\<lambda>e. Type e \<noteq> ''m.room.redaction'') evs) = 3"
  shows "add64 (add64 (add64 0 5) 5) overcompensateBackpaginationBy = 42
       \<and> GetEventPage fetch [] 5 5 w =
           (Inr (take 5 (drop 5 (eventList (room w))), None),
            w\<lparr>requests := requests w @ [(backPaginationToken (room w), 32)],
              room := (room w)\<lparr>eventList := eventList (room w)
                                   @ filter (\<lambda>e. Type e \<noteq> ''m.room.redaction'') evs,
                               backPaginationToken := tok\<rparr>\<rparr>)
       \<and> length (eventList (room (snd (GetEventPage fetch [] 5 5 w)))) = 13"
proof -
  have depth: "add64 (add64 (add64 0 5) 5) overcompensateBackpaginationBy = 42"
    by (simp add: add64_def wrap64_def overcompensateBackpaginationBy_def)
  show ?thesis
    using depth GetEventPage_5_5_of_ten [of w fetch evs tok, OF len fetched three] len three by simp
qed

theorem C3_page_5_5_of_ten_requests_32_witness:
  "length (eventList (room (sample_world 10))) = 10
   \<and> fetch_three (backPaginationToken (room (sample_world 10))) 32
        = Inr ([\<lparr>ID = ''$o1'', Type = ''m.room.message'', Content = ()\<rparr>,
                \<lparr>ID = ''$o2'', Type = ''m.room.message'', Content = ()\<rparr>,
                \<lparr>ID = ''$o3'', Type = ''m.room.message'', Content = ()\<rparr>], ''T2'')
   \<and> fst (GetEventPage fetch_three [] 5 5 (sample_world 10))
        = Inr (take 5 (drop 5 (sample_events 10)), None)
   \<and> requests (snd (GetEventPage fetch_three [] 5 5 (sample_world 10))) = [(''T1'', 32)]
   \<and> length (eventList (room (snd (GetEventPage fetch_three [] 5 5 (sample_world 10))))) = 13"
  using C3_page_5_5_of_ten_requests_32 [of "sample_world 10" fetch_three
     "[\<lparr>ID = ''$o1'', Type = ''m.room.message'', Content = ()\<rparr>,
       \<lparr>ID = ''$o2'', Type = ''m.room.message'', Content = ()\<rparr>,
       \<lparr>ID = ''$o3'', Type = ''m.room.message'', Content = ()\<rparr>]" "''T2''"]
  by (simp add: sample_world_simps fetch_three_def)

theorem C3_depth_47_request_37_counterexample:
  "length (eventList (room (sample_world 10))) = 10
   \<and> add64 (add64 (add64 0 5) 5) overcompensateBackpaginationBy \<noteq> 47
   \<and> requests (snd (GetEventPage fetch_three [] 5 5 (sample_world 10))) = [(''T1'', 32)]
   \<and> requests (snd (GetEventPage fetch_three [] 5 5 (sample_world 10))) \<noteq> [(''T1'', 37)]"
proof -
  have "requests (snd (GetEventPage fetch_three [] 5 5 (sample_world 10))) = [(''T1'', 32)]"
    using GetEventPage_5_5_of_ten [of "sample_world 10" fetch_three
     "[\<lparr>ID = ''$o1'', Type = ''m.room.message'', Content = ()\<rparr>,
       \<lparr>ID = ''$o2'', Type = ''m.room.message'', Content = ()\<rparr>,
       \<lparr>ID = ''$o3'', Type = ''m.room.message'', Content = ()\<rparr>]" "''T2''"]
    by (simp add: sample_world_simps fetch_three_def)
  then show ?thesis
    by (simp add: add64_def wrap64_def overcompensateBackpaginationBy_def sample_world_simps)
qed

text \<open>
  C4 (as amended). For a backward page request with non-negative \<open>anchorIndex\<close>, \<open>offset\<close>
  and \<open>number\<close> whose needed depth \<open>anchorIndex + offset + number + 32\<close> is at most the
  largest \<open>int\<close> (as is the length of the timeline after the call, like every slice's):
  \<open>getBackwardEventRange\<close> sends one request, for \<open>neededDepth - length\<close> events, exactly
  when \<open>neededDepth \<ge> length\<close>, and none otherwise; on success it adds the number of
  events appended to its tracked length, which then is the length of the timeline; and it
  returns exactly the events at the indices from \<open>min (anchorIndex + offset) length\<close> up to
  \<open>min (startIndex + number) length\<close>, so at most \<open>number\<close> events, contiguous and in the
  timeline's order.
\<close>

theorem C4_backward_range:
  assumes a: "0 \<le> anchorIndex" and off: "0 \<le> offset" and n: "0 \<le> number"
    and fit: "anchorIndex + offset + number + 32 \<le> max_int"
    and mem: "int (length (eventList (room (snd (getBackwardEventRange fetch
                anchorIndex offset number w))))) \<le> max_int"
  shows "let length0 = int (length (eventList (room w)));
             neededDepth = anchorIndex + offset + number + 32;
             fetched = backpaginateRoom fetch (neededDepth - length0) w;
             w' = (if neededDepth \<ge> length0 then snd fetched else w);
             length1 = (if neededDepth \<ge> length0 \<and> snd (fst fetched) = None
                        then length0 + fst (fst fetched) else length0);
             startIndex = min (anchorIndex + offset) length1;
             endIndex = min (startIndex + number) length1;
             page = take (nat (endIndex - startIndex)) (drop (nat startIndex) (eventList (room w')))
         in getBackwardEventRange fetch anchorIndex offset number w = (Inr page, w')
          \<and> requests w' = (if neededDepth \<ge> length0
                            then requests w @ [(backPaginationToken (room w), neededDepth - length0)]
                            else requests w)
          \<and> (neededDepth < length0 \<longrightarrow> w' = w)
          \<and> length1 = int (length (eventList (room w')))
          \<and> 0 \<le> startIndex \<and> startIndex \<le> endIndex \<and> endIndex \<le> length1
          \<and> int (length page) = endIndex - startIndex
          \<and> int (length page) \<le> number
          \<and> (\<forall>i < length page. page ! i = eventList (room w') ! (nat startIndex + i))"
proof (intro LetI)
  fix length0 neededDepth fetched w' length1 startIndex endIndex page
  assume length0_def: "length0 = int (length (eventList (room w)))"
    and neededDepth_def: "neededDepth = anchorIndex + offset + number + 32"
    and fetched_def: "fetched = backpaginateRoom fetch (neededDepth - length0) w"
    and w'_def: "w' = (if neededDepth \<ge> length0 then snd fetched else w)"
    and length1_def: "length1 = (if neededDepth \<ge> length0 \<and> snd (fst fetched) = None
                        then length0 + fst (fst fetched) else length0)"
    and startIndex_def: "startIndex = min (anchorIndex + offset) length1"
    and endIndex_def: "endIndex = min (startIndex + number) length1"
    and page_def:
      "page = take (nat (endIndex - startIndex)) (drop (nat startIndex) (eventList (room w')))"
  have tracked: "length1 = int (length (eventList (room w')))"
    using backpaginateRoom_tracked_length [of fetch "neededDepth - length0" w]
    unfolding length1_def w'_def fetched_def length0_def
    by (auto split: if_splits)
  have world: "w' = snd (getBackwardEventRange fetch anchorIndex offset number w)"
    by (simp add: getBackwardEventRange_world [OF a off n fit] w'_def fetched_def
          neededDepth_def length0_def)
  have mem': "int (length (eventList (room w'))) \<le> max_int"
    using mem by (simp add: world)
  have run: "getBackwardEventRange fetch anchorIndex offset number w = (Inr page, w')"
    unfolding page_def
    by (rule getBackwardEventRange_in_range [OF a off n fit world mem'])
      (simp_all add: startIndex_def endIndex_def tracked)
  have reqs: "requests w' = (if neededDepth \<ge> length0
                            then requests w @ [(backPaginationToken (room w), neededDepth - length0)]
                            else requests w)"
    by (simp add: w'_def fetched_def backpaginateRoom_requests)
  have same: "neededDepth < length0 \<longrightarrow> w' = w" by (simp add: w'_def)
  have l1: "0 \<le> length1" by (simp add: tracked)
  have bounds: "0 \<le> startIndex" "startIndex \<le> endIndex" "endIndex \<le> length1"
    using a off n l1 by (simp_all add: startIndex_def endIndex_def)
  have len: "int (length page) = endIndex - startIndex"
    using bounds tracked by (simp add: page_def)
  have le: "int (length page) \<le> number"
    using len by (simp add: endIndex_def)
  have nth: "\<forall>i < length page. page ! i = eventList (room w') ! (nat startIndex + i)"
    using bounds tracked by (simp add: page_def)
  show "getBackwardEventRange fetch anchorIndex offset number w = (Inr page, w')
          \<and> requests w' = (if neededDepth \<ge> length0
                            then requests w @ [(backPaginationToken (room w), neededDepth - length0)]
                            else requests w)
          \<and> (neededDepth < length0 \<longrightarrow> w' = w)
          \<and> length1 = int (length (eventList (room w')))
          \<and> 0 \<le> startIndex \<and> startIndex \<le> endIndex \<and> endIndex \<le> length1
          \<and> int (length page) = endIndex - startIndex
          \<and> int (length page) \<le> number
          \<and> (\<forall>i < length page. page ! i = eventList (room w') ! (nat startIndex + i))"
    using run reqs same tracked bounds len le nth by blast
qed

theorem C4_backward_range_witness:
  "(0::int) \<le> 0 \<and> (0::int) \<le> 1 \<and> (0::int) \<le> 1 \<and> (0::int) + 1 + 1 + 32 \<le> max_int
   \<and> int (length (eventList (room (snd (getBackwardEventRange fetch_three 0 1 1
                (sample_world 2)))))) \<le> max_int
   \<and> fst (getBackwardEventRange fetch_three 0 1 1 (sample_world 2))
        = Inr [\<lparr>ID = ''e'', Type = ''m.room.message'', Content = ()\<rparr>]
   \<and> requests (snd (getBackwardEventRange fetch_three 0 1 1 (sample_world 2))) = [(''T1'', 32)]"
proof -
  have fit: "(0::int) + 1 + 1 + 32 \<le> max_int" by (simp add: max_int_def)
  have w': "snd (getBackwardEventRange fetch_three 0 1 1 (sample_world 2))
              = snd (backpaginateRoom fetch_three 32 (sample_world 2))"
    using getBackwardEventRange_world [of 0 1 1 fetch_three "sample_world 2", OF _ _ _ fit]
    by (simp add: sample_world_simps)
  have h: "int (length (eventList (room (snd (getBackwardEventRange fetch_three 0 1 1
                (sample_world 2)))))) \<le> max_int"
    by (simp add: w' backpaginateRoom_fetch_three max_int_def)
  from C4_backward_range [of 0 1 1 fetch_three "sample_world 2", OF _ _ _ fit h]
  have "getBackwardEventRange fetch_three 0 1 1 (sample_world 2)
          = (Inr [\<lparr>ID = ''e'', Type = ''m.room.message'', Content = ()\<rparr>],
             snd (backpaginateRoom fetch_three 32 (sample_world 2)))"
    by (simp add: Let_def sample_world_simps backpaginateRoom_fetch_three sample_events_2
          cong: let_weak_cong)
  then show ?thesis
    using h fit by (simp add: backpaginateRoom_requests sample_world_simps)
qed

theorem C4_backward_range_overflow_counterexample:
  "fst (getBackwardEventRange fetch_three 0 1 9223372036854775807 (sample_world 2))
     = Inl SliceBoundsOutOfRange
   \<and> requests (snd (getBackwardEventRange fetch_three 0 1 9223372036854775807 (sample_world 2))) = []"
  by (simp add: getBackwardEventRange_def add64_def sub64_def wrap64_def
        overcompensateBackpaginationBy_def Min_int_def slice_def Let_def sample_world_simps)

text \<open>
  C5. When the cached window holds exactly \<open>anchorIndex + offset + pageSize + 32\<close> events,
  \<open>GetEventPage\<close> still invokes a backward extension, for 0 events, because
  \<open>getBackwardEventRange\<close> tests \<open>delta >= length\<close>; its comment asks for the extension
  only when the room does not have that many events. Here the room has 33 cached events
  and the call is \<open>GetEventPage("", 0, 1)\<close>, whose needed depth is \<open>0 + 0 + 1 + 32 = 33\<close>:
  the world afterwards holds the request for 0 events.
\<close>

theorem C5_fetch_when_window_holds_exactly_the_needed_depth:
  "int (length (eventList (room (sample_world 33)))) \<ge> 0 + 0 + 1 + 32
   \<and> GetEventPage fetch_fails [] 0 1 (sample_world 33)
       = (Inr (take 1 (sample_events 33), None), (sample_world 33)\<lparr>requests := [(''T1'', 0)]\<rparr>)"
proof -
  have "getBackwardEventRange fetch_fails 0 0 1 (sample_world 33)
       = (Inr (take (nat (1 - 0)) (drop (nat 0) (eventList (room (sample_world 33))))),
          (sample_world 33)\<lparr>requests := requests (sample_world 33)
              @ [(backPaginationToken (room (sample_world 33)),
                  0 + 0 + 1 + 32 - int (length (eventList (room (sample_world 33)))))]\<rparr>)"
    by (rule getBackwardEventRange_fetch_fails [where err = "Error ''timeout''"])
      (simp_all add: sample_world_simps max_int_def fetch_fails_def)
  then have "getBackwardEventRange fetch_fails 0 0 1 (sample_world 33)
       = (Inr (take 1 (sample_events 33)), (sample_world 33)\<lparr>requests := [(''T1'', 0)]\<rparr>)"
    by (simp add: sample_world_simps)
  then show ?thesis
    using GetEventPage_backward [OF GetEventPage_anchor_empty, where offset = 0 and pageSize = 1
        and fetch = fetch_fails and w = "sample_world 33"]
    by (simp add: sample_world_simps)
qed

text \<open>
  C6 (as amended). For a backward page request with \<open>offset \<ge> 0\<close> and \<open>pageSize \<ge> 0\<close>, an
  anchor that is empty or in the cached timeline, and a needed depth
  \<open>anchorIndex + offset + pageSize + 32\<close> that is at most the largest \<open>int\<close>: when the needed
  depth reaches the cached length and the backward fetch fails with an error, the room
  (timeline and cursors) is unchanged, the length used for slicing is the length before
  the call, and \<open>GetEventPage\<close> returns with no error the events at the indices from
  \<open>min (anchorIndex + offset) length\<close> up to \<open>min (startIndex + pageSize) length\<close>, possibly
  fewer than \<open>pageSize\<close>.
\<close>

theorem C6_failed_fetch_clamps_to_old_length:
  assumes anchor: "anchor = [] \<and> anchorIndex = 0
         \<or> anchor \<noteq> [] \<and> findEventIndex_loop anchor (eventList (room w)) 0 = Some anchorIndex"
    and off: "0 \<le> offset" and n: "0 \<le> pageSize"
    and fit: "anchorIndex + offset + pageSize + 32 \<le> max_int"
    and needed: "int (length (eventList (room w))) \<le> anchorIndex + offset + pageSize + 32"
    and fails: "fetch (backPaginationToken (room w))
                  (anchorIndex + offset + pageSize + 32 - int (length (eventList (room w)))) = Inl err"
  shows "let length0 = int (length (eventList (room w)));
             startIndex = min (anchorIndex + offset) length0;
             endIndex = min (startIndex + pageSize) length0;
             page = take (nat (endIndex - startIndex)) (drop (nat startIndex) (eventList (room w)))
         in GetEventPage fetch anchor offset pageSize w =
              (Inr (page, None),
               w\<lparr>requests := requests w @ [(backPaginationToken (room w),
                      anchorIndex + offset + pageSize + 32 - length0)]\<rparr>)
          \<and> room (snd (GetEventPage fetch anchor offset pageSize w)) = room w
          \<and> int (length page) = endIndex - startIndex
          \<and> int (length page) \<le> pageSize"
proof (intro LetI)
  fix length0 startIndex endIndex page
  assume length0_def: "length0 = int (length (eventList (room w)))"
    and startIndex_def: "startIndex = min (anchorIndex + offset) length0"
    and endIndex_def: "endIndex = min (startIndex + pageSize) length0"
    and page_def:
      "page = take (nat (endIndex - startIndex)) (drop (nat startIndex) (eventList (room w)))"
  note res = GetEventPage_anchor_resolved(1) [OF anchor, of fetch]
    GetEventPage_anchor_resolved(2) [OF anchor]
  have range: "getBackwardEventRange fetch anchorIndex offset pageSize w =
      (Inr page, w\<lparr>requests := requests w @ [(backPaginationToken (room w),
                      anchorIndex + offset + pageSize + 32 - length0)]\<rparr>)"
    unfolding page_def length0_def
    by (rule getBackwardEventRange_fetch_fails [where fetch = fetch, OF res(2) off n fit needed fails])
      (simp_all add: startIndex_def endIndex_def length0_def)
  have page: "GetEventPage fetch anchor offset pageSize w =
              (Inr (page, None),
               w\<lparr>requests := requests w @ [(backPaginationToken (room w),
                      anchorIndex + offset + pageSize + 32 - length0)]\<rparr>)"
    using GetEventPage_backward [OF res(1) off, of pageSize] by (simp add: range)
  have bounds: "0 \<le> startIndex" "startIndex \<le> endIndex" "endIndex \<le> length0"
    using res(2) off n by (simp_all add: startIndex_def endIndex_def length0_def)
  have len: "int (length page) = endIndex - startIndex"
    using bounds by (simp add: page_def length0_def)
  have le: "int (length page) \<le> pageSize"
    using len by (simp add: endIndex_def)
  show "GetEventPage fetch anchor offset pageSize w =
              (Inr (page, None),
               w\<lparr>requests := requests w @ [(backPaginationToken (room w),
                      anchorIndex + offset + pageSize + 32 - length0)]\<rparr>)
          \<and> room (snd (GetEventPage fetch anchor offset pageSize w)) = room w
          \<and> int (length page) = endIndex - startIndex
          \<and> int (length page) \<le> pageSize"
    using page len le by simp
qed

theorem C6_failed_fetch_clamps_to_old_length_witness:
  "([] = ([]::string) \<and> (0::int) = 0
      \<or> [] \<noteq> ([]::string) \<and> findEventIndex_loop [] (eventList (room (sample_world 3))) 0 = Some 0)
   \<and> (0::int) \<le> 1 \<and> (0::int) \<le> 5 \<and> (0::int) + 1 + 5 + 32 \<le> max_int
   \<and> int (length (eventList (room (sample_world 3)))) \<le> 0 + 1 + 5 + 32
   \<and> fetch_fails (backPaginationToken (room (sample_world 3)))
        (0 + 1 + 5 + 32 - int (length (eventList (room (sample_world 3))))) = Inl (Error ''timeout'')
   \<and> GetEventPage fetch_fails [] 1 5 (sample_world 3)
        = (Inr ([\<lparr>ID = ''ee'', Type = ''m.room.message'', Content = ()\<rparr>,
                 \<lparr>ID = ''e'', Type = ''m.room.message'', Content = ()\<rparr>], None),
           (sample_world 3)\<lparr>requests := [(''T1'', 35)]\<rparr>)"
  using C6_failed_fetch_clamps_to_old_length
      [of "[]" 0 "sample_world 3" 1 5 fetch_fails "Error ''timeout''"]
  by (simp add: Let_def sample_world_simps sample_events_3 max_int_def fetch_fails_def
        cong: let_weak_cong)

theorem C6_failed_fetch_panics_counterexample:
  "fetch_fails (backPaginationToken (room (sample_world 5))) 26 = Inl (Error ''timeout'')
   \<and> fst (GetEventPage fetch_fails [] 0 (- 1) (sample_world 5)) = Inl SliceBoundsOutOfRange
   \<and> requests (snd (GetEventPage fetch_fails [] 0 (- 1) (sample_world 5))) = [(''T1'', 26)]
   \<and> fetch_fails (backPaginationToken (room (sample_world 2))) 28 = Inl (Error ''timeout'')
   \<and> fst (GetEventPage fetch_fails [] 9223372036854775807 9223372036854775807 (sample_world 2))
        = Inl SliceBoundsOutOfRange
   \<and> requests (snd (GetEventPage fetch_fails [] 9223372036854775807 9223372036854775807
        (sample_world 2))) = [(''T1'', 28)]"
proof -
  have "getBackwardEventRange fetch_fails 0 0 (- 1) (sample_world 5)
      = (Inl SliceBoundsOutOfRange, (sample_world 5)\<lparr>requests := [(''T1'', 26)]\<rparr>)"
    by (simp add: getBackwardEventRange_def Let_def add64_def sub64_def wrap64_def
          overcompensateBackpaginationBy_def sample_world_simps
          backpaginateRoom_fetch_fails Min_int_def slice_def)
  then have neg: "GetEventPage fetch_fails [] 0 (- 1) (sample_world 5)
      = (Inl SliceBoundsOutOfRange, (sample_world 5)\<lparr>requests := [(''T1'', 26)]\<rparr>)"
    using GetEventPage_backward [OF GetEventPage_anchor_empty, where offset = 0 and pageSize = "- 1"
        and fetch = fetch_fails and w = "sample_world 5"]
    by simp
  have "getBackwardEventRange fetch_fails 0 9223372036854775807 9223372036854775807 (sample_world 2)
      = (Inl SliceBoundsOutOfRange, (sample_world 2)\<lparr>requests := [(''T1'', 28)]\<rparr>)"
    by (simp add: getBackwardEventRange_def Let_def add64_def sub64_def wrap64_def
          overcompensateBackpaginationBy_def sample_world_simps
          backpaginateRoom_fetch_fails Min_int_def slice_def)
  then have big: "GetEventPage fetch_fails [] 9223372036854775807 9223372036854775807 (sample_world 2)
      = (Inl SliceBoundsOutOfRange, (sample_world 2)\<lparr>requests := [(''T1'', 28)]\<rparr>)"
    using GetEventPage_backward [OF GetEventPage_anchor_empty,
        where offset = 9223372036854775807 and pageSize = 9223372036854775807
        and fetch = fetch_fails and w = "sample_world 2"]
    by simp
  show ?thesis
    by (simp add: neg big) (simp add: fetch_fails_def)
qed




text \<open>
  C8. \<open>concatForwardPagination\<close> drops every event of type \<open>m.room.redaction\<close>; the others
  (the survivors) are folded into the room state in arrival order with the initial flag
  false, and stand at the front of the event list in the reverse of arrival order, before
  the events already there: if there is a survivor, index 0 holds the last one. The
  newer-edge cursor is the new token; the older-edge cursor is unchanged.
\<close>

theorem C8_concatForwardPagination:
  "let survivors = filter (\<lambda>e. Type e \<noteq> ''m.room.redaction'') newEvents;
       r' = concatForwardPagination UpdateOnEvent newEvents newToken r
   in eventList r' = rev survivors @ eventList r
    \<and> latestRoomState r' = fold (\<lambda>e. UpdateOnEvent e False) survivors (latestRoomState r)
    \<and> forwardPaginationToken r' = newToken
    \<and> backPaginationToken r' = backPaginationToken r
    \<and> (\<forall>e \<in> set newEvents. Type e = ''m.room.redaction'' \<longrightarrow> e \<notin> set (take (length survivors) (eventList r')))
    \<and> (survivors \<noteq> [] \<longrightarrow> eventList r' ! 0 = last survivors)"
proof (intro LetI)
  fix survivors r'
  assume s: "survivors = filter (\<lambda>e. Type e \<noteq> ''m.room.redaction'') newEvents"
    and r': "r' = concatForwardPagination UpdateOnEvent newEvents newToken r"
  have evs: "eventList r' = rev survivors @ eventList r"
    by (simp add: r' s concatForwardPagination_def concatForwardPagination_loop_eq)
  have st: "latestRoomState r' = fold (\<lambda>e. UpdateOnEvent e False) survivors (latestRoomState r)"
    by (simp add: r' s concatForwardPagination_def concatForwardPagination_loop_eq)
  have tok: "forwardPaginationToken r' = newToken" "backPaginationToken r' = backPaginationToken r"
    by (simp_all add: r' concatForwardPagination_def concatForwardPagination_loop_eq)
  have front: "take (length survivors) (eventList r') = rev survivors" by (simp add: evs)
  have dropped: "\<forall>e \<in> set newEvents. Type e = ''m.room.redaction''
                   \<longrightarrow> e \<notin> set (take (length survivors) (eventList r'))"
    by (simp add: front) (simp add: s)
  have first: "survivors \<noteq> [] \<longrightarrow> eventList r' ! 0 = last survivors"
    by (simp add: evs nth_append hd_rev flip: hd_conv_nth)
  show "eventList r' = rev survivors @ eventList r
    \<and> latestRoomState r' = fold (\<lambda>e. UpdateOnEvent e False) survivors (latestRoomState r)
    \<and> forwardPaginationToken r' = newToken
    \<and> backPaginationToken r' = backPaginationToken r
    \<and> (\<forall>e \<in> set newEvents. Type e = ''m.room.redaction'' \<longrightarrow> e \<notin> set (take (length survivors) (eventList r')))
    \<and> (survivors \<noteq> [] \<longrightarrow> eventList r' ! 0 = last survivors)"
    using evs st tok dropped first by blast
qed

theorem C8_concatForwardPagination_witness:
  "eventList (concatForwardPagination (\<lambda>e initial n. if initial then n else Suc n)
       [\<lparr>ID = ''$n1'', Type = ''m.room.message'', Content = ()\<rparr>,
        \<lparr>ID = ''$n2'', Type = ''m.room.redaction'', Content = ()\<rparr>,
        \<lparr>ID = ''$n3'', Type = ''m.room.member'', Content = ()\<rparr>,
        \<lparr>ID = ''$n4'', Type = ''m.room.redaction'', Content = ()\<rparr>] ''T9''
       \<lparr>roomID = ''!room:hs'', backPaginationToken = ''T1'', forwardPaginationToken = ''T0'',
        eventList = [\<lparr>ID = ''$c'', Type = ''m.room.message'', Content = ()\<rparr>],
        latestRoomState = (0::nat), hasInitialSynced = False\<rparr>)
     = [\<lparr>ID = ''$n3'', Type = ''m.room.member'', Content = ()\<rparr>,
        \<lparr>ID = ''$n1'', Type = ''m.room.message'', Content = ()\<rparr>,
        \<lparr>ID = ''$c'', Type = ''m.room.message'', Content = ()\<rparr>]
   \<and> latestRoomState (concatForwardPagination (\<lambda>e initial n. if initial then n else Suc n)
       [\<lparr>ID = ''$n1'', Type = ''m.room.message'', Content = ()\<rparr>,
        \<lparr>ID = ''$n2'', Type = ''m.room.redaction'', Content = ()\<rparr>,
        \<lparr>ID = ''$n3'', Type = ''m.room.member'', Content = ()\<rparr>,
        \<lparr>ID = ''$n4'', Type = ''m.room.redaction'', Content = ()\<rparr>] ''T9''
       \<lparr>roomID = ''!room:hs'', backPaginationToken = ''T1'', forwardPaginationToken = ''T0'',
        eventList = [\<lparr>ID = ''$c'', Type = ''m.room.message'', Content = ()\<rparr>],
        latestRoomState = (0::nat), hasInitialSynced = False\<rparr>) = 2
   \<and> forwardPaginationToken (concatForwardPagination (\<lambda>e initial n. if initial then n else Suc n)
       [\<lparr>ID = ''$n1'', Type = ''m.room.message'', Content = ()\<rparr>,
        \<lparr>ID = ''$n2'', Type = ''m.room.redaction'', Content = ()\<rparr>,
        \<lparr>ID = ''$n3'', Type = ''m.room.member'', Content = ()\<rparr>,
        \<lparr>ID = ''$n4'', Type = ''m.room.redaction'', Content = ()\<rparr>] ''T9''
       \<lparr>roomID = ''!room:hs'', backPaginationToken = ''T1'', forwardPaginationToken = ''T0'',
        eventList = [\<lparr>ID = ''$c'', Type = ''m.room.message'', Content = ()\<rparr>],
        latestRoomState = (0::nat), hasInitialSynced = False\<rparr>) = ''T9''"
  using C8_concatForwardPagination [of
       "[\<lparr>ID = ''$n1'', Type = ''m.room.message'', Content = ()\<rparr>,
        \<lparr>ID = ''$n2'', Type = ''m.room.redaction'', Content = ()\<rparr>,
        \<lparr>ID = ''$n3'', Type = ''m.room.member'', Content = ()\<rparr>,
        \<lparr>ID = ''$n4'', Type = ''m.room.redaction'', Content = ()\<rparr>]"
       "\<lambda>e initial n. if initial then n else Suc n" "''T9''"
       "\<lparr>roomID = ''!room:hs'', backPaginationToken = ''T1'', forwardPaginationToken = ''T0'',
        eventList = [\<lparr>ID = ''$c'', Type = ''m.room.message'', Content = ()\<rparr>],
        latestRoomState = (0::nat), hasInitialSynced = False\<rparr>"]
  by (simp add: Let_def)

text \<open>
  C9 (as amended). A \<open>GetEventPage\<close> call with a negative offset sends no request and
  leaves the room unchanged, whatever its other arguments. When moreover the anchor is
  empty or in the cached timeline, \<open>0 \<le> pageSize\<close>, and
  \<open>anchorIndex + pageSize - fwdOffset\<close> with \<open>fwdOffset = - offset\<close> is at most the largest
  \<open>int\<close>, the call returns without error exactly the events at the indices from
  \<open>max (topIndex - pageSize) 0\<close> up to \<open>topIndex\<close>, where \<open>topIndex\<close> is
  \<open>anchorIndex + pageSize - fwdOffset\<close> clamped to the interval from 0 to the length.
\<close>

theorem C9_forward_page:
  assumes o: "offset < 0"
  shows "snd (GetEventPage fetch anchor offset pageSize w) = w
       \<and> ((anchor = [] \<and> anchorIndex = 0
            \<or> anchor \<noteq> [] \<and> findEventIndex_loop anchor (eventList (room w)) 0 = Some anchorIndex)
          \<and> min_int \<le> offset \<and> 0 \<le> pageSize \<and> pageSize \<le> max_int
          \<and> anchorIndex + pageSize - (- offset) \<le> max_int
          \<longrightarrow> (let fwdOffset = - offset;
                   length0 = int (length (eventList (room w)));
                   topIndex = max 0 (min (anchorIndex + pageSize - fwdOffset) length0);
                   bottomIndex = max (topIndex - pageSize) 0
               in fst (GetEventPage fetch anchor offset pageSize w)
                    = Inr (take (nat (topIndex - bottomIndex))
                             (drop (nat bottomIndex) (eventList (room w))), None)))"
proof (intro conjI impI LetI)
  show "snd (GetEventPage fetch anchor offset pageSize w) = w"
    using o by (rule GetEventPage_forward_frame)
next
  fix fwdOffset length0 topIndex bottomIndex
  assume h: "(anchor = [] \<and> anchorIndex = 0
            \<or> anchor \<noteq> [] \<and> findEventIndex_loop anchor (eventList (room w)) 0 = Some anchorIndex)
          \<and> min_int \<le> offset \<and> 0 \<le> pageSize \<and> pageSize \<le> max_int
          \<and> anchorIndex + pageSize - (- offset) \<le> max_int"
    and fwd: "fwdOffset = - offset"
    and len: "length0 = int (length (eventList (room w)))"
    and top: "topIndex = max 0 (min (anchorIndex + pageSize - fwdOffset) length0)"
    and bot: "bottomIndex = max (topIndex - pageSize) 0"
  from h have anchor: "anchor = [] \<and> anchorIndex = 0
            \<or> anchor \<noteq> [] \<and> findEventIndex_loop anchor (eventList (room w)) 0 = Some anchorIndex"
    and omin: "min_int \<le> offset" and n: "0 \<le> pageSize" and nmax: "pageSize \<le> max_int"
    and fit: "anchorIndex + pageSize - (- offset) \<le> max_int"
    by blast+
  note res = GetEventPage_anchor_resolved(1) [OF anchor, of fetch]
    GetEventPage_anchor_resolved(2) [OF anchor]
  have top': "topIndex = max 0 (min (anchorIndex + pageSize - (- offset))
                                  (int (length (eventList (room w)))))"
    by (simp add: top fwd len)
  have "getForwardEventRange anchorIndex (neg64 offset) pageSize (room w)
          = Inr (take (nat (topIndex - bottomIndex)) (drop (nat bottomIndex) (eventList (room w))))"
    by (rule getForwardEventRange_in_range [OF res(2) n nmax o omin fit top' bot])
  then show "fst (GetEventPage fetch anchor offset pageSize w)
                    = Inr (take (nat (topIndex - bottomIndex))
                             (drop (nat bottomIndex) (eventList (room w))), None)"
    using GetEventPage_forward [OF res(1) o, of pageSize] by simp
qed

theorem C9_forward_page_witness:
  "(- 2 :: int) < 0
   \<and> (''e'' \<noteq> [] \<and> findEventIndex_loop ''e'' (eventList (room (sample_world 3))) 0 = Some 2)
   \<and> min_int \<le> - 2 \<and> (0::int) \<le> 2 \<and> 2 \<le> max_int \<and> (2::int) + 2 - (- (- 2)) \<le> max_int
   \<and> GetEventPage fetch_three ''e'' (- 2) 2 (sample_world 3)
        = (Inr ([\<lparr>ID = ''eee'', Type = ''m.room.message'', Content = ()\<rparr>,
                 \<lparr>ID = ''ee'', Type = ''m.room.message'', Content = ()\<rparr>], None),
           sample_world 3)"
proof -
  have idx: "findEventIndex_loop ''e'' (eventList (room (sample_world 3))) 0 = Some 2"
    by (simp add: sample_world_simps sample_events_3)
  have rng: "min_int \<le> - 2" "(2::int) \<le> max_int" "(2::int) + 2 - (- (- 2)) \<le> max_int"
    by (simp_all add: min_int_def max_int_def)
  have "snd (GetEventPage fetch_three ''e'' (- 2) 2 (sample_world 3)) = sample_world 3
      \<and> fst (GetEventPage fetch_three ''e'' (- 2) 2 (sample_world 3))
          = Inr ([\<lparr>ID = ''eee'', Type = ''m.room.message'', Content = ()\<rparr>,
                 \<lparr>ID = ''ee'', Type = ''m.room.message'', Content = ()\<rparr>], None)"
    using C9_forward_page [of "- 2" fetch_three "''e''" 2 "sample_world 3" 2] idx rng
    by (simp add: Let_def sample_world_simps sample_events_3 cong: let_weak_cong)
  then show ?thesis
    using idx rng by (simp add: prod_eq_iff)
qed

theorem C9_forward_page_counterexample:
  "fst (GetEventPage fetch_three [] (- 1) (- 3) (sample_world 10)) = Inl SliceBoundsOutOfRange
   \<and> findEventIndex_loop ''e'' (eventList (room (sample_world 3))) 0 = Some 2
   \<and> fst (GetEventPage fetch_three ''e'' (- 1) 9223372036854775807 (sample_world 3)) = Inr ([], None)
   \<and> max 0 (min (2 + 9223372036854775807 - (1::int)) (int (length (eventList (room (sample_world 3)))))) = 3"
proof -
  have neg: "neg64 (- 1) = 1" by (simp add: neg64_def wrap64_def)
  have a: "fst (GetEventPage fetch_three [] (- 1) (- 3) (sample_world 10)) = Inl SliceBoundsOutOfRange"
    using GetEventPage_forward [OF GetEventPage_anchor_empty, where offset = "- 1"
        and pageSize = "- 3" and fetch = fetch_three and w = "sample_world 10"]
    by (simp add: neg getForwardEventRange_negative_number)
  have anchor: "GetEventPage_anchor fetch_three ''e'' (sample_world 3) = Inr (2, sample_world 3)"
    by (simp add: GetEventPage_anchor_eq sample_world_simps sample_events_3)
  have top: "sub64 (add64 2 9223372036854775807) (neg64 (- 1)) = - 9223372036854775808"
    by (simp add: add64_def sub64_def neg64_def wrap64_def)
  have bot: "sub64 0 9223372036854775807 = - 9223372036854775807"
    by (simp add: sub64_def wrap64_def)
  have "getForwardEventRange 2 (neg64 (- 1)) 9223372036854775807 (room (sample_world 3)) = Inr []"
    by (simp add: getForwardEventRange_def Let_def top Bound_def bot Max_int_def slice_def)
  then have b: "fst (GetEventPage fetch_three ''e'' (- 1) 9223372036854775807 (sample_world 3)) = Inr ([], None)"
    using GetEventPage_forward [OF anchor, of "- 1" 9223372036854775807] by simp
  show ?thesis using a b by (simp add: sample_world_simps sample_events_3)
qed

text \<open>
  C10 (as amended). For \<open>number \<ge> 0\<close> the slice expressions of both range functions are
  within bounds (\<open>0 \<le> start \<le> end \<le> length\<close>), that is, the functions return a page and do
  not panic: in \<open>getBackwardEventRange\<close> when the anchor index and the offset are
  non-negative and the needed depth \<open>anchorIndex + offset + number + 32\<close> is at most the
  largest \<open>int\<close> (as is the length of the timeline after the call); in
  \<open>getForwardEventRange\<close> for every index and offset, \<open>number\<close> and the timeline's length
  being at most the largest \<open>int\<close>. That \<open>number \<ge> 0\<close> is needed: with \<open>number = -1\<close> both
  functions panic, on every timeline.
\<close>

theorem C10_slice_bounds:
  assumes n: "0 \<le> number"
  shows "(0 \<le> anchorIndex \<and> 0 \<le> offset \<and> anchorIndex + offset + number + 32 \<le> max_int
          \<and> int (length (eventList (room (snd (getBackwardEventRange fetch
                anchorIndex offset number w))))) \<le> max_int
          \<longrightarrow> (\<exists>page. fst (getBackwardEventRange fetch anchorIndex offset number w) = Inr page))
       \<and> (number \<le> max_int \<and> int (length (eventList r)) \<le> max_int
          \<longrightarrow> (\<exists>page. getForwardEventRange index fwdOffset number r = Inr page))
       \<and> fst (getBackwardEventRange fetch 0 0 (- 1) w) = Inl SliceBoundsOutOfRange
       \<and> getForwardEventRange 0 1 (- 1) r = Inl SliceBoundsOutOfRange"
proof (intro conjI impI)
  assume h: "0 \<le> anchorIndex \<and> 0 \<le> offset \<and> anchorIndex + offset + number + 32 \<le> max_int
          \<and> int (length (eventList (room (snd (getBackwardEventRange fetch
                anchorIndex offset number w))))) \<le> max_int"
  then have a: "0 \<le> anchorIndex" and off: "0 \<le> offset"
    and fit: "anchorIndex + offset + number + 32 \<le> max_int"
    and mem: "int (length (eventList (room (snd (getBackwardEventRange fetch
                anchorIndex offset number w))))) \<le> max_int"
    by simp_all
  obtain page w' where "getBackwardEventRange fetch anchorIndex offset number w = (Inr page, w')"
    using getBackwardEventRange_in_range [OF a off n fit refl mem refl refl] by blast
  then show "\<exists>page. fst (getBackwardEventRange fetch anchorIndex offset number w) = Inr page"
    by simp
next
  assume "number \<le> max_int \<and> int (length (eventList r)) \<le> max_int"
  then show "\<exists>page. getForwardEventRange index fwdOffset number r = Inr page"
    using getForwardEventRange_safe [OF n, of r index fwdOffset] by simp
next
  show "fst (getBackwardEventRange fetch 0 0 (- 1) w) = Inl SliceBoundsOutOfRange"
    by (rule getBackwardEventRange_minus_one)
next
  show "getForwardEventRange 0 1 (- 1) r = Inl SliceBoundsOutOfRange"
    by (rule getForwardEventRange_negative_number(1))
qed

theorem C10_slice_bounds_witness:
  "(0::int) \<le> 1
   \<and> (0::int) \<le> 0 \<and> (0::int) \<le> 1 \<and> (0::int) + 1 + 1 + 32 \<le> max_int
   \<and> int (length (eventList (room (snd (getBackwardEventRange fetch_fails 0 1 1
                (sample_world 2)))))) \<le> max_int
   \<and> (\<exists>page. fst (getBackwardEventRange fetch_fails 0 1 1 (sample_world 2)) = Inr page)
   \<and> (1::int) \<le> max_int \<and> int (length (eventList (sample_room 2))) \<le> max_int
   \<and> (\<exists>page. getForwardEventRange 0 1 1 (sample_room 2) = Inr page)"
proof -
  have fit: "(0::int) + 1 + 1 + 32 \<le> max_int" by (simp add: max_int_def)
  have w': "room (snd (getBackwardEventRange fetch_fails 0 1 1 (sample_world 2))) = sample_room 2"
    using getBackwardEventRange_world [of 0 1 1 fetch_fails "sample_world 2", OF _ _ _ fit]
    by (simp add: sample_world_simps backpaginateRoom_fetch_fails)
  have h: "(1::int) \<le> max_int"
    "int (length (eventList (sample_room 2))) \<le> max_int"
    "int (length (eventList (room (snd (getBackwardEventRange fetch_fails 0 1 1
                (sample_world 2)))))) \<le> max_int"
    by (simp_all add: w') (simp_all add: max_int_def sample_world_simps)
  show ?thesis
    using C10_slice_bounds [of 1 0 1 fetch_fails "sample_world 2" "sample_room 2" 0 1] fit h
    by simp
qed

theorem C10_slice_bounds_overflow_counterexample:
  "(0::int) \<le> 9223372036854775807
   \<and> fst (GetEventPage fetch_three [] 1 9223372036854775807 (sample_world 2))
       = Inl SliceBoundsOutOfRange"
proof -
  have "getBackwardEventRange fetch_three 0 1 9223372036854775807 (sample_world 2)
      = (Inl SliceBoundsOutOfRange, sample_world 2)"
    by (simp add: getBackwardEventRange_def add64_def sub64_def wrap64_def
          overcompensateBackpaginationBy_def Min_int_def slice_def Let_def sample_world_simps)
  then show ?thesis
    using GetEventPage_backward [OF GetEventPage_anchor_empty,
        where offset = 1 and pageSize = 9223372036854775807
        and fetch = fetch_three and w = "sample_world 2"]
    by simp
qed

end
